theory Spec2Isabelle
  imports Complex_Main "HOL-Library.Sublist"
begin

section \<open>Python strings\<close>

text \<open>
  A Python \<open>str\<close> is modelled as the list of its code points, restricted to code points
  below 256, so that \<open>length\<close>, \<open>take\<close> and \<open>prefix\<close> count what Python's \<open>len\<close>,
  slicing and \<open>startswith\<close> count. \<open>None\<close> is the \<open>None\<close> of \<open>string option\<close>.
\<close>

definition is_space :: "char \<Rightarrow> bool" where
  \<comment> \<open>\<open>str.isspace\<close> on one code point below 256; also the class \<open>\s\<close> of \<open>re\<close>\<close>
  "is_space c = (let n = (of_char c :: nat) in
     (9 \<le> n \<and> n \<le> 13) \<or> (28 \<le> n \<and> n \<le> 32) \<or> n = 133 \<or> n = 160)"

definition is_digit :: "char \<Rightarrow> bool" where
  \<comment> \<open>the class \<open>\d\<close> of \<open>re\<close> on code points below 256\<close>
  "is_digit c = (let n = (of_char c :: nat) in 48 \<le> n \<and> n \<le> 57)"

definition strip :: "string \<Rightarrow> string" where
  "strip s = rev (dropWhile is_space (rev (dropWhile is_space s)))"

definition lower_char :: "char \<Rightarrow> char" where
  "lower_char c = (let n = (of_char c :: nat) in
     if (65 \<le> n \<and> n \<le> 90) \<or> (192 \<le> n \<and> n \<le> 214) \<or> (216 \<le> n \<and> n \<le> 222)
     then char_of (n + 32) else c)"

definition lower :: "string \<Rightarrow> string" where
  "lower s = map lower_char s"

definition upper_char :: "char \<Rightarrow> nat list" where
  \<comment> \<open>\<open>str.upper\<close> on one code point below 256, as code points: the capital of
      three letters is not below 256 or is not one character (181 gives 924,
      223 gives \<open>SS\<close>, 255 gives 376)\<close>
  "upper_char c = (let n = (of_char c :: nat) in
     if n = 181 then [924]
     else if n = 223 then [83, 83]
     else if n = 255 then [376]
     else if (97 \<le> n \<and> n \<le> 122) \<or> (224 \<le> n \<and> n \<le> 246) \<or> (248 \<le> n \<and> n \<le> 254)
     then [n - 32] else [n])"

definition upper :: "string \<Rightarrow> nat list" where
  \<comment> \<open>the code points of \<open>s.upper()\<close>\<close>
  "upper s = concat (map upper_char s)"

definition code_points :: "string \<Rightarrow> nat list" where
  "code_points s = map of_char s"

definition startswith :: "string \<Rightarrow> string \<Rightarrow> bool" where
  \<comment> \<open>\<open>s.startswith(p)\<close>\<close>
  "startswith s p = prefix p s"

definition contains :: "string \<Rightarrow> string \<Rightarrow> bool" where
  \<comment> \<open>\<open>p in s\<close>\<close>
  "contains s p = sublist p s"

definition replace_char :: "char \<Rightarrow> string \<Rightarrow> string \<Rightarrow> string" where
  \<comment> \<open>\<open>s.replace(c, r)\<close> for a pattern of one character\<close>
  "replace_char c r s = concat (map (\<lambda>x. if x = c then r else [x]) s)"

definition truthy :: "string option \<Rightarrow> bool" where
  \<comment> \<open>the truth value of an \<open>Optional[str]\<close>: neither \<open>None\<close> nor empty\<close>
  "truthy v = (case v of None \<Rightarrow> False | Some s \<Rightarrow> s \<noteq> [])"

definition or_else :: "string option \<Rightarrow> string \<Rightarrow> string" where
  \<comment> \<open>\<open>v or d\<close>, for an \<open>Optional[str]\<close> and a \<open>str\<close>\<close>
  "or_else v d = (case v of None \<Rightarrow> d | Some s \<Rightarrow> if s = [] then d else s)"

definition digit_char :: "nat \<Rightarrow> char" where
  "digit_char d = ''0123456789'' ! (d mod 10)"

function str_nat :: "nat \<Rightarrow> string" where
  "str_nat n = (if n < 10 then [digit_char n] else str_nat (n div 10) @ [digit_char (n mod 10)])"
  by pat_completeness auto
termination
  by (relation "measure id") auto

declare str_nat.simps [simp del]

definition str_int :: "int \<Rightarrow> string" where
  \<comment> \<open>\<open>str(i)\<close> of an \<open>int\<close>\<close>
  "str_int i = (if i < 0 then CHR ''-'' # str_nat (nat (- i)) else str_nat (nat i))"


section \<open>The stdio wrappers of main.py\<close>

subsection \<open>JSONRPCStdout\<close>

text \<open>
  The two channels are the lists of the chunks written to them, oldest first.
  \<open>original_stdout.flush()\<close> and \<open>sys.stderr.flush()\<close> write nothing.
\<close>

record channels =
  original_stdout :: "string list"
  sys_stderr :: "string list"

definition JSONRPCStdout_write :: "channels \<Rightarrow> string \<Rightarrow> channels" where
  "JSONRPCStdout_write io data =
     (if data \<noteq> [] \<and> strip data \<noteq> [] then
        (if startswith (strip data) ''{'' \<or> startswith (strip data) ''['' then
           io\<lparr>original_stdout := original_stdout io @ [data]\<rparr>
         else
           io\<lparr>sys_stderr := sys_stderr io @
             [''Attempted to write non-JSON to stdout: '' @ take 100 data @ [CHR 0x0A]]\<rparr>)
      else io)"

subsection \<open>SafeJsonStdin\<close>


definition match_id_at :: "string \<Rightarrow> string option" where
  \<comment> \<open>the pattern \<open>"id"\s*:\s*(\d+)\<close> matched at the start of \<open>s\<close>; group 1. Both \<open>\s*\<close>
      are followed by a character that is no space, and \<open>\d+\<close> is greedy, so the
      match is the longest one and there is no other.\<close>
  "match_id_at s =
     (if startswith s [CHR 0x22, CHR ''i'', CHR ''d'', CHR 0x22] then
        (case dropWhile is_space (drop 4 s) of
           [] \<Rightarrow> None
         | c # r \<Rightarrow>
             if c = CHR '':'' then
               (let ds = takeWhile is_digit (dropWhile is_space r)
                in if ds = [] then None else Some ds)
             else None)
      else None)"

fun re_search_id :: "string \<Rightarrow> string option" where
  \<comment> \<open>\<open>re.search(r'"id"\s*:\s*(\d+)', s)\<close>: the leftmost match, \<open>None\<close> when there is none\<close>
  "re_search_id [] = None"
| "re_search_id (c # cs) =
     (case match_id_at (c # cs) of Some ds \<Rightarrow> Some ds | None \<Rightarrow> re_search_id cs)"




section \<open>Well-formed JSON texts\<close>

text \<open>
  The grammar of a JSON text, as a recogniser: \<open>json_value\<close> reads one value at the
  start of its input and returns what follows it. The first argument bounds the number
  of nested calls; twice the length of the text is more than a text can use.
  No function of the source computes this: it is what the specification calls a
  well-formed JSON value.
\<close>

definition json_ws :: "char \<Rightarrow> bool" where
  "json_ws c = (c = CHR '' '' \<or> c = CHR 0x09 \<or> c = CHR 0x0A \<or> c = CHR 0x0D)"

definition is_hex :: "char \<Rightarrow> bool" where
  "is_hex c = (c \<in> set ''0123456789abcdefABCDEF'')"

fun json_string_rest :: "string \<Rightarrow> string option" where
  \<comment> \<open>the input after an opening quote; the result is the input after the closing one\<close>
  "json_string_rest [] = None"
| "json_string_rest [c] = (if c = CHR 0x22 then Some [] else None)"
| "json_string_rest (c # e # es) =
     (if c = CHR 0x22 then Some (e # es)
      else if c = CHR 0x5C then
        (if e \<in> set [CHR 0x22, CHR 0x5C, CHR ''/'', CHR ''b'', CHR ''f'', CHR ''n'', CHR ''r'', CHR ''t'']
           then json_string_rest es
         else if e = CHR ''u'' \<and> 4 \<le> length es \<and> list_all is_hex (take 4 es)
           then json_string_rest es
         else None)
      else if (of_char c :: nat) < 32 then None
      else json_string_rest (e # es))"

definition json_int_part :: "string \<Rightarrow> string option" where
  \<comment> \<open>\<open>0\<close>, or a digit that is not \<open>0\<close> and the digits after it\<close>
  "json_int_part s =
     (case s of
        [] \<Rightarrow> None
      | d # r \<Rightarrow>
          (if \<not> is_digit d then None
           else if d = CHR ''0'' then Some r
           else Some (dropWhile is_digit r)))"

definition json_frac_part :: "string \<Rightarrow> string option" where
  \<comment> \<open>nothing, or a point and at least one digit\<close>
  "json_frac_part s =
     (if startswith s ''.'' then
        (if takeWhile is_digit (drop 1 s) = [] then None
         else Some (dropWhile is_digit (drop 1 s)))
      else Some s)"

definition json_exp_part :: "string \<Rightarrow> string option" where
  \<comment> \<open>nothing, or \<open>e\<close> or \<open>E\<close>, a sign or none, and at least one digit\<close>
  "json_exp_part s =
     (if startswith s ''e'' \<or> startswith s ''E'' then
        (let r = (if startswith (drop 1 s) ''+'' \<or> startswith (drop 1 s) ''-''
                  then drop 2 s else drop 1 s)
         in if takeWhile is_digit r = [] then None else Some (dropWhile is_digit r))
      else Some s)"

definition json_number :: "string \<Rightarrow> string option" where
  "json_number s =
     (case json_int_part (if startswith s ''-'' then drop 1 s else s) of
        None \<Rightarrow> None
      | Some r \<Rightarrow>
          (case json_frac_part r of
             None \<Rightarrow> None
           | Some r' \<Rightarrow> json_exp_part r'))"

fun json_value :: "nat \<Rightarrow> string \<Rightarrow> string option"
and json_elements :: "nat \<Rightarrow> string \<Rightarrow> string option"
and json_members :: "nat \<Rightarrow> string \<Rightarrow> string option" where
  "json_value 0 s = None"
| "json_value (Suc n) s =
     (case s of
        [] \<Rightarrow> None
      | c # r \<Rightarrow>
          if c = CHR ''{'' then
            (case dropWhile json_ws r of
               [] \<Rightarrow> None
             | d # r' \<Rightarrow> if d = CHR ''}'' then Some r' else json_members n (d # r'))
          else if c = CHR ''['' then
            (case dropWhile json_ws r of
               [] \<Rightarrow> None
             | d # r' \<Rightarrow> if d = CHR '']'' then Some r' else json_elements n (d # r'))
          else if c = CHR 0x22 then json_string_rest r
          else if startswith s ''true'' then Some (drop 4 s)
          else if startswith s ''false'' then Some (drop 5 s)
          else if startswith s ''null'' then Some (drop 4 s)
          else json_number s)"
| "json_elements 0 s = None"
| "json_elements (Suc n) s =
     (case json_value n s of
        None \<Rightarrow> None
      | Some r \<Rightarrow>
          (case dropWhile json_ws r of
             [] \<Rightarrow> None
           | c # r' \<Rightarrow>
               if c = CHR '']'' then Some r'
               else if c = CHR '','' then json_elements n (dropWhile json_ws r')
               else None))"
| "json_members 0 s = None"
| "json_members (Suc n) s =
     (case s of
        [] \<Rightarrow> None
      | q # r0 \<Rightarrow>
          if q \<noteq> CHR 0x22 then None
          else
            (case json_string_rest r0 of
               None \<Rightarrow> None
             | Some r1 \<Rightarrow>
                 (case dropWhile json_ws r1 of
                    [] \<Rightarrow> None
                  | c # r2 \<Rightarrow>
                      if c \<noteq> CHR '':'' then None
                      else
                        (case json_value n (dropWhile json_ws r2) of
                           None \<Rightarrow> None
                         | Some r3 \<Rightarrow>
                             (case dropWhile json_ws r3 of
                                [] \<Rightarrow> None
                              | e # r4 \<Rightarrow>
                                  if e = CHR ''}'' then Some r4
                                  else if e = CHR '','' then json_members n (dropWhile json_ws r4)
                                  else None)))))"

definition well_formed_json :: "string \<Rightarrow> bool" where
  "well_formed_json s =
     (case json_value (2 * length s + 2) (dropWhile json_ws s) of
        None \<Rightarrow> False
      | Some r \<Rightarrow> dropWhile json_ws r = [])"


section \<open>Tasks and executions\<close>

datatype TaskStatus = PENDING | RUNNING | COMPLETED | FAILED

datatype json =
  JNull | JBool bool | JNum int | JStr string | JArr "json list" | JObj "(string \<times> json) list"

text \<open>
  Modelled from the spec: the classes \<open>Task\<close>, \<open>TaskExecution\<close>, \<open>TaskStatus\<close> and
  \<open>TaskType\<close> of \<open>mcp_scheduler/task.py\<close>, which executor.py imports and which is not
  among the source files. The fields are those of section 3 of the specification, under
  the names executor.py reads them by; \<open>type_value\<close> is \<open>task.type.value\<close>, and
  \<open>ident\<close> is \<open>task.id\<close>. A new execution has no output, no error and no end time.
\<close>

record Task =
  ident :: string
  name :: string
  type_value :: string
  command :: "string option"
  api_url :: "string option"
  api_method :: "string option"
  api_headers :: "(string \<times> string) list option"
  api_body :: "(string \<times> json) list option"
  prompt :: "string option"
  reminder_title :: "string option"
  reminder_message :: "string option"

record TaskExecution =
  exec_ident :: string
  task_id :: string
  start_time :: nat
  end_time :: "nat option"
  status :: TaskStatus
  "output" :: "string option"
  error :: "string option"

definition TaskExecution_new :: "string \<Rightarrow> nat \<Rightarrow> string \<Rightarrow> TaskExecution" where
  "TaskExecution_new uuid now tid =
     \<lparr>exec_ident = uuid, task_id = tid, start_time = now, end_time = None,
      status = RUNNING, output = None, error = None\<rparr>"


section \<open>The host and the executor\<close>

text \<open>
  An exception is an instance of \<open>Exception\<close>: its class, as far as the handlers of
  executor.py tell classes apart, and its message \<open>str(e)\<close>. What is not an
  \<open>Exception\<close> (the cancellation of the coroutine, the exit of the interpreter) is
  not a behaviour of an action and is not modelled.
\<close>

datatype exn_class = ClientError | TimeoutError | OtherException

datatype exn = Exn exn_class string

fun str_exn :: "exn \<Rightarrow> string" where
  "str_exn (Exn cls m) = m"

fun class_of :: "exn \<Rightarrow> exn_class" where
  "class_of (Exn cls m) = cls"

text \<open>
  Captured bytes, up to what \<open>decode()\<close> makes of them: the text they decode to, or
  (bytes that are not UTF-8, so not empty) the message of the \<open>UnicodeDecodeError\<close>.
\<close>

datatype bytes = Decodable string | Undecodable string

fun bytes_truthy :: "bytes \<Rightarrow> bool" where
  "bytes_truthy (Decodable s) = (s \<noteq> [])"
| "bytes_truthy (Undecodable m) = True"

fun decode :: "bytes \<Rightarrow> exn + string" where
  "decode (Decodable s) = Inr s"
| "decode (Undecodable m) = Inl (Exn OtherException m)"

datatype spawn =
  Subprocess_shell string
| Subprocess_exec string "string list"

text \<open>
  What a spawned process does: \<open>create_subprocess_*\<close> raises, or \<open>communicate()\<close>
  raises (under \<open>wait_for\<close>, \<open>TimeoutError\<close> when the timeout passes), or the process
  exits with a return code, its standard output and its standard error.
\<close>

datatype process_outcome =
  Spawn_raises exn
| Communicate_raises exn
| Exited int bytes bytes

record http_request =
  http_method :: "nat list"
  http_url :: string
  http_headers :: "(string \<times> string) list"
  http_json :: "(string \<times> json) list option"
  http_timeout :: int

datatype http_outcome =
  Request_raises exn
| Response int "exn + string"

record chat_request =
  chat_model :: string
  chat_system :: string
  chat_user :: string
  chat_max_tokens :: int
  chat_temperature :: real

text \<open>
  A completion is the list of the \<open>message.content\<close> of its choices; the content of a
  message is an \<open>Optional[str]\<close>.
\<close>

datatype chat_outcome =
  Create_raises exn
| Completion "string option list"

type_synonym chat_client = "chat_request \<Rightarrow> chat_outcome"

datatype event =
  Ev_subprocess spawn
| Ev_kill
| Ev_request http_request
| Ev_completion chat_request
| Ev_write string

text \<open>
  The method of a request is kept as the code points of \<open>method.upper()\<close>, which
  need not be below 256.

  The host is what the executor calls and does not contain: \<open>platform.system()\<close>,
  \<open>shlex.split\<close> (\<open>Inl\<close> is the message of its \<open>ValueError\<close>), the outcome of each
  process and of each HTTP request, \<open>os.environ.get('TEMP')\<close>, \<open>os.path.join\<close>, the
  writing of the notification file (\<open>Some\<close> is the exception \<open>open\<close> or \<open>write\<close>
  raises), and the identifier and the two readings of the clock an execution receives.
  One run of \<open>execute_task\<close> makes no call twice, so an outcome by call loses nothing.
\<close>

record host =
  platform_system :: string
  shlex_split :: "string \<Rightarrow> string + string list"
  subprocess :: "spawn \<Rightarrow> process_outcome"
  session_request :: "http_request \<Rightarrow> http_outcome"
  environ_TEMP :: "string option"
  path_join :: "string \<Rightarrow> string \<Rightarrow> string"
  write_hta :: "string \<Rightarrow> string \<Rightarrow> string \<Rightarrow> exn option"
  uuid4 :: string
  utcnow_start :: nat
  utcnow_end :: nat

text \<open>
  The fields of \<open>Config\<close> that executor.py and \<open>get_ai_config\<close> read. The
  temperature, a float, is only handed on to the provider.
\<close>

record Config =
  execution_timeout :: int
  ai_provider :: string
  ai_model :: string
  openai_api_key :: "string option"
  openai_base_url :: "string option"
  openai_organization :: "string option"
  azure_openai_api_key :: "string option"
  azure_openai_endpoint :: "string option"
  azure_openai_api_version :: "string option"
  anthropic_api_key :: "string option"
  anthropic_base_url :: "string option"
  local_model_base_url :: "string option"
  local_model_api_key :: "string option"
  ai_max_tokens :: int
  ai_temperature :: real

record ai_config =
  max_tokens :: int
  temperature :: real
  model :: string
  api_key :: "string option"
  base_url :: "string option"
  more_keys :: "(string \<times> string option) list"

definition format_optional :: "string option \<Rightarrow> string" where
  \<comment> \<open>an \<open>Optional[str]\<close> inside an f-string\<close>
  "format_optional v = (case v of None \<Rightarrow> ''None'' | Some s \<Rightarrow> s)"

definition get_ai_config :: "Config \<Rightarrow> string + ai_config" where
  \<comment> \<open>\<open>Inl\<close> is the message of the \<open>ValueError\<close>\<close>
  "get_ai_config c =
     (if ai_provider c = ''openai'' then
        Inr \<lparr>max_tokens = ai_max_tokens c, temperature = ai_temperature c, model = ai_model c,
             api_key = openai_api_key c, base_url = openai_base_url c,
             more_keys = [(''organization'', openai_organization c)]\<rparr>
      else if ai_provider c = ''azure'' then
        Inr \<lparr>max_tokens = ai_max_tokens c, temperature = ai_temperature c, model = ai_model c,
             api_key = azure_openai_api_key c,
             base_url = Some (format_optional (azure_openai_endpoint c) @
                              ''/openai/deployments/'' @ ai_model c),
             more_keys = [(''api_version'', azure_openai_api_version c)]\<rparr>
      else if ai_provider c = ''anthropic'' then
        Inr \<lparr>max_tokens = ai_max_tokens c, temperature = ai_temperature c, model = ai_model c,
             api_key = anthropic_api_key c, base_url = anthropic_base_url c, more_keys = []\<rparr>
      else if ai_provider c = ''local'' then
        Inr \<lparr>max_tokens = ai_max_tokens c, temperature = ai_temperature c, model = ai_model c,
             api_key = local_model_api_key c, base_url = local_model_base_url c, more_keys = []\<rparr>
      else Inl (''Unsupported AI provider: '' @ ai_provider c))"

record Executor =
  self_config :: Config
  self_execution_timeout :: int
  self_is_windows :: bool
  self_ai_client :: "chat_client option"

type_synonym result = "string option \<times> string option"


section \<open>executor.py\<close>

text \<open>
  Every handler returns the external calls it made, in order, beside its result:
  the pair \<open>(output, error)\<close> of the source, or (\<open>Inl\<close>) the exception that leaves it.
\<close>

subsection \<open>Shell commands\<close>

definition shell_commands :: "string list" where
  "shell_commands = [''start'', ''cd'', ''dir'', ''echo'', ''set'', ''type'', ''copy'', ''del'',
                     ''md'', ''rd'', ''ren'', ''cls'']"

definition use_shell :: "bool \<Rightarrow> string \<Rightarrow> bool" where
  \<comment> \<open>the value of the variable \<open>use_shell\<close> when the command is spawned\<close>
  "use_shell is_windows command' =
     (is_windows \<or>
      list_ex (\<lambda>cmd. startswith (lower (strip command')) cmd) shell_commands \<or>
      (CHR ''|'' \<in> set command' \<or> CHR ''>'' \<in> set command' \<or> CHR ''<'' \<in> set command'))"

definition missing_program :: string where
  \<comment> \<open>the \<open>TypeError\<close> of \<open>create_subprocess_exec(*args)\<close> when \<open>args\<close> is empty\<close>
  "missing_program =
     ''create_subprocess_exec() missing 1 required positional argument: '' @
     [CHR 0x27] @ ''program'' @ [CHR 0x27]"

definition communicate :: "Executor \<Rightarrow> spawn \<Rightarrow> process_outcome \<Rightarrow> event list \<times> result" where
  \<comment> \<open>the body of the outer \<open>try\<close> from the spawn on, for each outcome of the process\<close>
  "communicate ex req oc =
     (case oc of
        Spawn_raises e \<Rightarrow>
          ([Ev_subprocess req], (None, Some (''Failed to execute command: '' @ str_exn e)))
      | Communicate_raises e \<Rightarrow>
          if class_of e = TimeoutError then
            ([Ev_subprocess req, Ev_kill],
             (None, Some (''Command timed out after '' @ str_int (self_execution_timeout ex) @
                          '' seconds'')))
          else
            ([Ev_subprocess req], (None, Some (''Failed to execute command: '' @ str_exn e)))
      | Exited returncode stdout stderr \<Rightarrow>
          if returncode \<noteq> 0 then
            (case (if bytes_truthy stderr then decode stderr else Inr ''Unknown error'') of
               Inl e \<Rightarrow>
                 ([Ev_subprocess req], (None, Some (''Failed to execute command: '' @ str_exn e)))
             | Inr error_msg \<Rightarrow>
                 ([Ev_subprocess req],
                  (None, Some (''Command failed with exit code '' @ str_int returncode @ '': '' @
                               error_msg))))
          else
            (case decode stdout of
               Inl e \<Rightarrow>
                 ([Ev_subprocess req], (None, Some (''Failed to execute command: '' @ str_exn e)))
             | Inr text \<Rightarrow> ([Ev_subprocess req], (Some (strip text), None))))"

definition spawn_request :: "Executor \<Rightarrow> host \<Rightarrow> string \<Rightarrow> string + spawn" where
  \<comment> \<open>the call that creates the process: \<open>create_subprocess_shell(full_command)\<close> in
      shell mode, \<open>create_subprocess_exec(*shlex.split(command))\<close> otherwise; \<open>Inl\<close> is
      the error returned when no process is created\<close>
  "spawn_request ex h command' =
     (if use_shell (self_is_windows ex) command' then
        (let full_command = (if self_is_windows ex then ''cmd.exe /c '' @ command' else command')
         in Inr (Subprocess_shell full_command))
      else
        (case shlex_split h command' of
           Inl m \<Rightarrow> Inl (''Invalid command syntax: '' @ m)
         | Inr [] \<Rightarrow> Inl (''Failed to execute command: '' @ missing_program)
         | Inr (program # args) \<Rightarrow> Inr (Subprocess_exec program args)))"

definition execute_shell_command ::
  "Executor \<Rightarrow> host \<Rightarrow> string option \<Rightarrow> event list \<times> result" where
  "execute_shell_command ex h command' =
     (case command' of
        None \<Rightarrow> ([], (None, Some ''No command specified''))
      | Some c \<Rightarrow>
          if c = [] then ([], (None, Some ''No command specified''))
          else
            (case spawn_request ex h c of
               Inl early \<Rightarrow> ([], (None, Some early))
             | Inr req \<Rightarrow> communicate ex req (subprocess h req)))"

fun spawned :: "event list \<Rightarrow> spawn list" where
  \<comment> \<open>the processes among the external calls\<close>
  "spawned [] = []"
| "spawned (Ev_subprocess req # evs) = req # spawned evs"
| "spawned (Ev_kill # evs) = spawned evs"
| "spawned (Ev_request r # evs) = spawned evs"
| "spawned (Ev_completion r # evs) = spawned evs"
| "spawned (Ev_write f # evs) = spawned evs"

subsection \<open>API calls\<close>

definition api_except :: "Executor \<Rightarrow> exn \<Rightarrow> exn + result" where
  \<comment> \<open>the two \<open>except\<close> clauses of \<open>_execute_api_call\<close>; any other exception goes on\<close>
  "api_except ex e =
     (if class_of e = ClientError then Inr (None, Some (''API call failed: '' @ str_exn e))
      else if class_of e = TimeoutError then
        Inr (None, Some (''API call timed out after '' @ str_int (self_execution_timeout ex) @
                         '' seconds''))
      else Inl e)"

definition api_request ::
  "Executor \<Rightarrow> string \<Rightarrow> string option \<Rightarrow> (string \<times> string) list option \<Rightarrow>
   (string \<times> json) list option \<Rightarrow> http_request" where
  \<comment> \<open>the arguments of \<open>session.request\<close>\<close>
  "api_request ex url method headers body =
     (let method = upper (or_else method ''GET'')
      in \<lparr>http_method = method, http_url = url,
          http_headers = (case headers of None \<Rightarrow> [] | Some hs \<Rightarrow> hs),
          http_json = (if method \<in> set (map code_points [''POST'', ''PUT'', ''PATCH'']) \<and>
                          body \<noteq> None \<and> body \<noteq> Some []
                       then body else None),
          http_timeout = self_execution_timeout ex\<rparr>)"

definition execute_api_call ::
  "Executor \<Rightarrow> host \<Rightarrow> string option \<Rightarrow> string option \<Rightarrow> (string \<times> string) list option \<Rightarrow>
   (string \<times> json) list option \<Rightarrow> event list \<times> (exn + result)" where
  "execute_api_call ex h url method headers body =
     (case url of
        None \<Rightarrow> ([], Inr (None, Some ''No URL specified''))
      | Some u \<Rightarrow>
          if u = [] then ([], Inr (None, Some ''No URL specified''))
          else
            (let request = api_request ex u method headers body
             in (case session_request h request of
                   Request_raises e \<Rightarrow> ([Ev_request request], api_except ex e)
                 | Response st (Inl e) \<Rightarrow> ([Ev_request request], api_except ex e)
                 | Response st (Inr response_text) \<Rightarrow>
                     if st \<ge> 400 then
                       ([Ev_request request],
                        Inr (None, Some (''API call failed with status '' @ str_int st @ '': '' @
                                         response_text)))
                     else ([Ev_request request], Inr (Some response_text, None)))))"

subsection \<open>AI tasks\<close>

definition system_prompt :: string where
  "system_prompt = ''You are a helpful assistant executing scheduled tasks.''"

definition execute_ai_task :: "Executor \<Rightarrow> host \<Rightarrow> string option \<Rightarrow> event list \<times> result" where
  "execute_ai_task ex h prompt' =
     (case prompt' of
        None \<Rightarrow> ([], (None, Some ''No prompt specified''))
      | Some p \<Rightarrow>
          if p = [] then ([], (None, Some ''No prompt specified''))
          else
            (case self_ai_client ex of
               None \<Rightarrow> ([], (None, Some ''No AI client configured for AI tasks''))
             | Some create \<Rightarrow>
                 (case get_ai_config (self_config ex) of
                    Inl m \<Rightarrow> ([], (None, Some (''AI task failed: '' @ m)))
                  | Inr cfg \<Rightarrow>
                      (let request_params =
                             \<lparr>chat_model = ai_model (self_config ex), chat_system = system_prompt,
                              chat_user = p, chat_max_tokens = max_tokens cfg,
                              chat_temperature = temperature cfg\<rparr>
                       in (case create request_params of
                             Create_raises e \<Rightarrow>
                               if class_of e = TimeoutError then
                                 ([Ev_completion request_params], (None, Some ''AI API call timed out''))
                               else
                                 ([Ev_completion request_params],
                                  (None, Some (''AI task failed: '' @ str_exn e)))
                           | Completion [] \<Rightarrow>
                               ([Ev_completion request_params],
                                (None, Some (''AI task failed: list index out of range'')))
                           | Completion (response # others) \<Rightarrow>
                               ([Ev_completion request_params], (response, None)))))))"

subsection \<open>Reminders\<close>

definition dq :: string where
  "dq = [CHR 0x22]"

definition sound_cmd :: string where
  "sound_cmd = ''paplay /usr/share/sounds/freedesktop/stereo/message.oga''"

definition which_check :: "host \<Rightarrow> string \<Rightarrow> event list \<times> (exn + int)" where
  \<comment> \<open>\<open>create_subprocess_shell("which ...")\<close>, \<open>communicate()\<close> and the return code\<close>
  "which_check h tool =
     ([Ev_subprocess (Subprocess_shell (''which '' @ tool))],
      (case subprocess h (Subprocess_shell (''which '' @ tool)) of
         Spawn_raises e \<Rightarrow> Inl e
       | Communicate_raises e \<Rightarrow> Inl e
       | Exited returncode out err \<Rightarrow> Inr returncode))"

text \<open>
  The three branches on \<open>os_type\<close> give the command to run (\<open>Inr (Inr command)\<close>),
  return early with an error (\<open>Inr (Inl error)\<close>), or raise (\<open>Inl\<close>). The text of
  the HTML document written on Windows is fixed by the title and the message put into
  it; \<open>write_hta\<close> receives the path and these two, not the text.
\<close>

definition windows_command ::
  "Executor \<Rightarrow> host \<Rightarrow> string \<Rightarrow> string \<Rightarrow> event list \<times> (exn + (string + string))" where
  "windows_command ex h title message =
     (let safe_title = replace_char (CHR 0x27) [CHR 0x27, CHR 0x27] title;
          safe_message = replace_char (CHR 0x27) [CHR 0x27, CHR 0x27] message;
          temp_dir = path_join h (case environ_TEMP h of None \<Rightarrow> [] | Some t \<Rightarrow> t) [];
          temp_html = path_join h temp_dir ''notification.hta''
      in (case write_hta h temp_html safe_title safe_message of
            Some e \<Rightarrow> ([Ev_write temp_html], Inl e)
          | None \<Rightarrow>
              ([Ev_write temp_html] @
               fst (execute_shell_command ex h (Some ''rundll32 user32.dll,MessageBeep'')),
               Inr (Inr (''start mshta.exe '' @ dq @ temp_html @ dq)))))"

definition darwin_command :: "string \<Rightarrow> string \<Rightarrow> string" where
  "darwin_command title message =
     (let safe_title = replace_char (CHR 0x22) [CHR 0x5C, CHR 0x22] title;
          safe_message = replace_char (CHR 0x22) [CHR 0x5C, CHR 0x22] message
      in ''osascript -e '' @ [CHR 0x27] @ ''display notification '' @ dq @ safe_message @ dq @
         '' with title '' @ dq @ safe_title @ dq @ '' sound name '' @ dq @ ''default'' @ dq @
         [CHR 0x27])"

definition linux_command ::
  "host \<Rightarrow> string \<Rightarrow> string \<Rightarrow> string \<Rightarrow> event list \<times> (exn + (string + string))" where
  "linux_command h os_type title message =
     (let safe_title = replace_char (CHR 0x22) [CHR 0x5C, CHR 0x22] title;
          safe_message = replace_char (CHR 0x22) [CHR 0x5C, CHR 0x22] message;
          notify_cmd = ''notify-send -u normal '' @ dq @ safe_title @ dq @ '' '' @ dq @
                       safe_message @ dq
      in (case which_check h ''notify-send'' of
            (ev1, Inl e) \<Rightarrow> (ev1, Inl e)
          | (ev1, Inr rc1) \<Rightarrow>
              if rc1 \<noteq> 0 then
                (case which_check h ''zenity'' of
                   (ev2, Inl e) \<Rightarrow> (ev1 @ ev2, Inl e)
                 | (ev2, Inr rc2) \<Rightarrow>
                     if rc2 = 0 then
                       (ev1 @ ev2,
                        Inr (Inr (''zenity --info --title='' @ dq @ safe_title @ dq @ '' --text='' @
                                  dq @ safe_message @ dq @ '' & '' @ sound_cmd)))
                     else
                       (case which_check h ''xmessage'' of
                          (ev3, Inl e) \<Rightarrow> (ev1 @ ev2 @ ev3, Inl e)
                        | (ev3, Inr rc3) \<Rightarrow>
                            if rc3 = 0 then
                              (ev1 @ ev2 @ ev3,
                               Inr (Inr (''xmessage -center '' @ dq @ safe_title @ '': '' @
                                         safe_message @ dq @ '' & '' @ sound_cmd)))
                            else
                              (ev1 @ ev2 @ ev3,
                               Inr (Inl (''No notification command available on this system ('' @
                                         os_type @ '')'')))))
              else (ev1, Inr (Inr (notify_cmd @ '' && '' @ sound_cmd)))))"

definition notification_command ::
  "Executor \<Rightarrow> host \<Rightarrow> string \<Rightarrow> string \<Rightarrow> event list \<times> (exn + (string + string))" where
  "notification_command ex h title message =
     (let os_type = platform_system h
      in if os_type = ''Windows'' then windows_command ex h title message
         else if os_type = ''Darwin'' then ([], Inr (Inr (darwin_command title message)))
         else linux_command h os_type title message)"

definition execute_reminder_task ::
  "Executor \<Rightarrow> host \<Rightarrow> string \<Rightarrow> string option \<Rightarrow> event list \<times> result" where
  "execute_reminder_task ex h title message =
     (case message of
        None \<Rightarrow> ([], (None, Some ''No message specified for reminder''))
      | Some m \<Rightarrow>
          if m = [] then ([], (None, Some ''No message specified for reminder''))
          else
            (case notification_command ex h title m of
               (evs, Inl e) \<Rightarrow> (evs, (None, Some (''Reminder task failed: '' @ str_exn e)))
             | (evs, Inr (Inl early)) \<Rightarrow> (evs, (None, Some early))
             | (evs, Inr (Inr command')) \<Rightarrow>
                 if command' \<noteq> [] then
                   (case execute_shell_command ex h (Some command') of
                      (evs2, (out, err)) \<Rightarrow>
                        if truthy err then
                          (evs @ evs2, (None, Some (''Notification failed: '' @ format_optional err)))
                        else (evs @ evs2, (Some (''Displayed notification: '' @ title), None)))
                 else (evs, (None, Some ''Failed to create notification command''))))"

subsection \<open>execute_task\<close>

definition settle :: "TaskExecution \<Rightarrow> result \<Rightarrow> TaskExecution" where
  \<comment> \<open>the \<open>if error: ... else: ...\<close> that follows each of the four handlers\<close>
  "settle execution r =
     (case r of (out, err) \<Rightarrow>
        if truthy err then execution\<lparr>status := FAILED, error := err\<rparr>
        else execution\<lparr>status := COMPLETED, output := out\<rparr>)"

definition execute_task_try ::
  "Executor \<Rightarrow> host \<Rightarrow> Task \<Rightarrow> TaskExecution \<Rightarrow> event list \<times> (exn + TaskExecution)" where
  \<comment> \<open>the body of the \<open>try\<close> of \<open>execute_task\<close>\<close>
  "execute_task_try ex h task execution =
     (if type_value task = ''shell_command'' then
        (case execute_shell_command ex h (command task) of
           (evs, r) \<Rightarrow> (evs, Inr (settle execution r)))
      else if type_value task = ''api_call'' then
        (case execute_api_call ex h (api_url task) (api_method task) (api_headers task)
                (api_body task) of
           (evs, Inl e) \<Rightarrow> (evs, Inl e)
         | (evs, Inr r) \<Rightarrow> (evs, Inr (settle execution r)))
      else if type_value task = ''ai'' then
        (case execute_ai_task ex h (prompt task) of
           (evs, r) \<Rightarrow> (evs, Inr (settle execution r)))
      else if type_value task = ''reminder'' then
        (case execute_reminder_task ex h (or_else (reminder_title task) (name task))
                (reminder_message task) of
           (evs, r) \<Rightarrow> (evs, Inr (settle execution r)))
      else
        ([], Inr (execution\<lparr>status := FAILED,
                            error := Some (''Unsupported task type: '' @ type_value task)\<rparr>)))"

definition execute_task :: "Executor \<Rightarrow> host \<Rightarrow> Task \<Rightarrow> event list \<times> (exn + TaskExecution)" where
  \<comment> \<open>\<open>Inl\<close> would be an exception that reaches the caller\<close>
  "execute_task ex h task =
     (let execution = TaskExecution_new (uuid4 h) (utcnow_start h) (ident task)
      in (case execute_task_try ex h task execution of
            (evs, Inr execution') \<Rightarrow> (evs, Inr (execution'\<lparr>end_time := Some (utcnow_end h)\<rparr>))
          | (evs, Inl e) \<Rightarrow>
              (evs, Inr (execution\<lparr>status := FAILED, error := Some (str_exn e),
                                   end_time := Some (utcnow_end h)\<rparr>))))"


section \<open>Example hosts, executors and tasks\<close>

definition example_config :: Config where
  "example_config =
     \<lparr>execution_timeout = 300, ai_provider = ''openai'', ai_model = ''gpt-3.5-turbo'',
      openai_api_key = None, openai_base_url = Some ''https://api.openai.com/v1'',
      openai_organization = None, azure_openai_api_key = None, azure_openai_endpoint = None,
      azure_openai_api_version = Some ''2023-12-01-preview'', anthropic_api_key = None,
      anthropic_base_url = Some ''https://api.anthropic.com'',
      local_model_base_url = Some ''http://localhost:11434/v1'',
      local_model_api_key = Some ''ollama'', ai_max_tokens = 2000, ai_temperature = 7 / 10\<rparr>"

definition posix_executor :: Executor where
  \<comment> \<open>an executor on a host that is not Windows, without credentials\<close>
  "posix_executor =
     \<lparr>self_config = example_config, self_execution_timeout = 300, self_is_windows = False,
      self_ai_client = None\<rparr>"

definition windows_executor :: Executor where
  "windows_executor = posix_executor\<lparr>self_is_windows := True\<rparr>"

definition no_such_file :: string where
  "no_such_file = ''[Errno 2] No such file or directory: '' @ [CHR 0x27] @ ''exit'' @ [CHR 0x27]"

definition linux_host :: host where
  \<comment> \<open>a Linux host on which \<open>which\<close> finds no tool (a shell exits with code 1 and
      prints nothing), no program is on the path, and the HTTP server answers 404\<close>
  "linux_host =
     \<lparr>platform_system = ''Linux'',
      shlex_split = (\<lambda>c. if c = ''exit 1'' then Inr [''exit'', ''1'']
                          else if c = ''ls -l'' then Inr [''ls'', ''-l'']
                          else Inl ''No closing quotation''),
      subprocess = (\<lambda>req. case req of
                             Subprocess_shell c \<Rightarrow> Exited 1 (Decodable []) (Decodable [])
                           | Subprocess_exec program args \<Rightarrow>
                               Spawn_raises (Exn OtherException no_such_file)),
      session_request = (\<lambda>req. Response 404 (Inr ''not found'')),
      environ_TEMP = None,
      path_join = (\<lambda>a b. a @ b),
      write_hta = (\<lambda>f t m. None),
      uuid4 = ''exec_000000000001'',
      utcnow_start = 0,
      utcnow_end = 1\<rparr>"

definition windows_host :: host where
  "windows_host = linux_host\<lparr>platform_system := ''Windows''\<rparr>"

definition example_task :: Task where
  "example_task =
     \<lparr>ident = ''task_000000000001'', name = ''Example'', type_value = ''shell_command'',
      command = Some ''exit 1'', api_url = Some ''http://x/report'', api_method = Some ''get'',
      api_headers = None, api_body = None, prompt = Some ''Say hello'',
      reminder_title = None, reminder_message = Some ''Stand up''\<rparr>"

definition content_free_client :: chat_client where
  \<comment> \<open>a provider whose completion has one choice, with no content\<close>
  "content_free_client = (\<lambda>request. Completion [None])"

definition one_sided :: "result \<Rightarrow> bool" where
  \<comment> \<open>an output and no error, or no output and an error that is not empty\<close>
  "one_sided r =
     (case r of
        (Some out, None) \<Rightarrow> True
      | (None, Some m) \<Rightarrow> m \<noteq> []
      | (Some out, Some m) \<Rightarrow> False
      | (None, None) \<Rightarrow> False)"

definition binary_stderr_host :: host where
  \<comment> \<open>a host whose processes exit with code 2 and write bytes that are not UTF-8
      to their standard error\<close>
  "binary_stderr_host =
     linux_host\<lparr>subprocess :=
       (\<lambda>req. Exited 2 (Decodable []) (Undecodable ''invalid start byte''))\<rparr>"

definition which_events :: "string list \<Rightarrow> event list" where
  \<comment> \<open>the calls \<open>which tool\<close>, one for each tool, in order\<close>
  "which_events tools = map (\<lambda>tool. Ev_subprocess (Subprocess_shell (''which '' @ tool))) tools"




definition decode_error_message :: string where
  \<comment> \<open>the message of a \<open>UnicodeDecodeError\<close>\<close>
  "decode_error_message =
     [CHR 0x27] @ ''utf-8'' @ [CHR 0x27] @ '' codec can'' @ [CHR 0x27] @
     ''t decode byte 0xff in position 0: invalid start byte''"

definition binary_body_host :: host where
  \<comment> \<open>a host whose HTTP server answers 200 with a body that \<open>response.text()\<close>
      cannot decode\<close>
  "binary_body_host =
     linux_host\<lparr>session_request :=
       (\<lambda>req. Response 200 (Inl (Exn OtherException decode_error_message)))\<rparr>"



section \<open>The outcome of execute_task\<close>

lemma settle_status: "status (settle execution r) = COMPLETED \<or> status (settle execution r) = FAILED"
  by (cases r) (simp add: settle_def)

lemma execute_task_try_status:
  "execute_task_try ex h task execution = (evs, Inr e) \<Longrightarrow> status e = COMPLETED \<or> status e = FAILED"
  unfolding execute_task_try_def
  by (auto split: if_splits prod.splits sum.splits) (metis settle_status)+

text \<open>
  C1: for every task (of one of the four types or not), every executor and every
  behaviour of the host (each external call returns, raises an exception or times out),
  \<open>execute_task\<close> returns an execution and raises nothing; the status of that
  execution is completed or failed, never pending or running, and its end time is set.
  An exception that leaves the handler of an \<open>api_call\<close> is caught here.
\<close>

theorem execute_task_terminal:
  "\<exists>execution. snd (execute_task ex h task) = Inr execution \<and>
     (status execution = COMPLETED \<or> status execution = FAILED) \<and>
     status execution \<noteq> PENDING \<and> status execution \<noteq> RUNNING \<and>
     end_time execution = Some (utcnow_end h)"
proof (cases "execute_task_try ex h task (TaskExecution_new (uuid4 h) (utcnow_start h) (ident task))")
  case (Pair evs r)
  show ?thesis
  proof (cases r)
    case (Inl e)
    with Pair show ?thesis by (simp add: execute_task_def)
  next
    case (Inr e)
    with Pair have "status e = COMPLETED \<or> status e = FAILED"
      using execute_task_try_status by blast
    with Pair Inr show ?thesis by (auto simp: execute_task_def)
  qed
qed

text \<open>
  The \<open>except\<close> clause at work: an exception of the request that is neither a
  \<open>ClientError\<close> nor a \<open>TimeoutError\<close> leaves \<open>_execute_api_call\<close>, and
  \<open>execute_task\<close> turns it into a failed execution whose error is its message.
\<close>

lemma api_exception_is_caught:
  assumes "type_value task = ''api_call''" and "api_url task = Some u" and "u \<noteq> []"
    and "session_request h (api_request ex u (api_method task) (api_headers task) (api_body task)) =
           Request_raises (Exn OtherException m)"
  shows "snd (execute_api_call ex h (api_url task) (api_method task) (api_headers task)
                (api_body task)) = Inl (Exn OtherException m)"
    and "snd (execute_task ex h task) =
           Inr ((TaskExecution_new (uuid4 h) (utcnow_start h) (ident task))
                  \<lparr>status := FAILED, error := Some m, end_time := Some (utcnow_end h)\<rparr>)"
  using assms
  by (simp_all add: execute_task_def execute_task_try_def execute_api_call_def api_except_def)

text \<open>
  C10: a task whose type value is none of \<open>shell_command\<close>, \<open>api_call\<close>, \<open>ai\<close>
  and \<open>reminder\<close> gives a failed execution whose error is \<open>Unsupported task type: \<close>
  followed by the type value; nothing is raised and no external call is made.
\<close>

theorem unsupported_type_fails:
  assumes "type_value task \<noteq> ''shell_command''" and "type_value task \<noteq> ''api_call''"
    and "type_value task \<noteq> ''ai''" and "type_value task \<noteq> ''reminder''"
  shows "execute_task ex h task =
           ([], Inr ((TaskExecution_new (uuid4 h) (utcnow_start h) (ident task))
                       \<lparr>status := FAILED,
                        error := Some (''Unsupported task type: '' @ type_value task),
                        end_time := Some (utcnow_end h)\<rparr>))"
  using assms by (simp add: execute_task_def execute_task_try_def)

theorem unsupported_type_fails_witness:
  "snd (execute_task posix_executor linux_host (example_task\<lparr>type_value := ''webhook''\<rparr>)) =
     Inr \<lparr>exec_ident = ''exec_000000000001'', task_id = ''task_000000000001'', start_time = 0,
          end_time = Some 1, status = FAILED, output = None,
          error = Some ''Unsupported task type: webhook''\<rparr>"
  using unsupported_type_fails [of "example_task\<lparr>type_value := ''webhook''\<rparr>" posix_executor linux_host]
  by (simp add: example_task_def linux_host_def TaskExecution_new_def)

subsection \<open>Output and error\<close>

lemma settle_error_iff:
  "error execution = None \<Longrightarrow>
     (error (settle execution r) \<noteq> None) = (status (settle execution r) = FAILED)"
  by (cases r) (auto simp: settle_def truthy_def split: option.splits)

lemma settle_output_completed:
  "output execution = None \<Longrightarrow> output (settle execution r) \<noteq> None \<Longrightarrow>
     status (settle execution r) = COMPLETED"
  by (cases r) (auto simp: settle_def split: if_splits)

lemma execute_task_try_shape:
  assumes "execute_task_try ex h task execution = (evs, Inr e)"
  shows "(\<exists>r. e = settle execution r) \<or> (\<exists>m. e = execution\<lparr>status := FAILED, error := Some m\<rparr>)"
  using assms unfolding execute_task_try_def
  by (auto split: if_splits prod.splits sum.splits)

lemma execute_task_try_error_iff:
  assumes "execute_task_try ex h task execution = (evs, Inr e)" and "error execution = None"
  shows "(error e \<noteq> None) = (status e = FAILED)"
proof -
  from execute_task_try_shape [OF assms(1)] show ?thesis
  proof
    assume "\<exists>r. e = settle execution r"
    then obtain r where "e = settle execution r" ..
    with settle_error_iff [OF assms(2)] show ?thesis by simp
  next
    assume "\<exists>m. e = execution\<lparr>status := FAILED, error := Some m\<rparr>"
    then show ?thesis by auto
  qed
qed

lemma execute_task_try_output:
  assumes "execute_task_try ex h task execution = (evs, Inr e)" and "output execution = None"
    and "output e \<noteq> None"
  shows "status e = COMPLETED"
proof -
  from execute_task_try_shape [OF assms(1)] show ?thesis
  proof
    assume "\<exists>r. e = settle execution r"
    then obtain r where "e = settle execution r" ..
    with settle_output_completed [OF assms(2)] assms(3) show ?thesis by simp
  next
    assume "\<exists>m. e = execution\<lparr>status := FAILED, error := Some m\<rparr>"
    with assms(2,3) show ?thesis by auto
  qed
qed

lemma execute_task_error_iff_failed:
  assumes "snd (execute_task ex h task) = Inr e"
  shows "(error e \<noteq> None) = (status e = FAILED)"
proof (cases "execute_task_try ex h task (TaskExecution_new (uuid4 h) (utcnow_start h) (ident task))")
  case (Pair evs r)
  show ?thesis
  proof (cases r)
    case (Inl x)
    with Pair assms show ?thesis by (auto simp: execute_task_def)
  next
    case (Inr e')
    have "error (TaskExecution_new (uuid4 h) (utcnow_start h) (ident task)) = None"
      by (simp add: TaskExecution_new_def)
    with Pair Inr have "(error e' \<noteq> None) = (status e' = FAILED)"
      using execute_task_try_error_iff by blast
    with Pair Inr assms show ?thesis by (auto simp: execute_task_def)
  qed
qed

lemma execute_task_output_completed:
  assumes "snd (execute_task ex h task) = Inr e" and "output e \<noteq> None"
  shows "status e = COMPLETED"
proof (cases "execute_task_try ex h task (TaskExecution_new (uuid4 h) (utcnow_start h) (ident task))")
  case (Pair evs r)
  show ?thesis
  proof (cases r)
    case (Inl x)
    with Pair assms show ?thesis by (auto simp: execute_task_def TaskExecution_new_def)
  next
    case (Inr e')
    have o: "output (TaskExecution_new (uuid4 h) (utcnow_start h) (ident task)) = None"
      by (simp add: TaskExecution_new_def)
    from Pair Inr assms have "e = e'\<lparr>end_time := Some (utcnow_end h)\<rparr>"
      by (auto simp: execute_task_def)
    with assms(2) have "output e' \<noteq> None" by simp
    with Pair Inr o have "status e' = COMPLETED"
      using execute_task_try_output by blast
    with \<open>e = e'\<lparr>end_time := Some (utcnow_end h)\<rparr>\<close> show ?thesis by simp
  qed
qed

lemma communicate_one_sided: "one_sided (snd (communicate ex req oc))"
  by (auto simp: communicate_def one_sided_def split: process_outcome.splits sum.splits)

lemma execute_shell_command_one_sided: "one_sided (snd (execute_shell_command ex h c))"
proof (cases c)
  case None
  then show ?thesis by (simp add: execute_shell_command_def one_sided_def)
next
  case (Some a)
  show ?thesis
  proof (cases "a = []")
    case True
    with Some show ?thesis by (simp add: execute_shell_command_def one_sided_def)
  next
    case False
    show ?thesis
    proof (cases "spawn_request ex h a")
      case (Inl e)
      then have "e \<noteq> []"
        by (auto simp: spawn_request_def Let_def split: if_splits sum.splits list.splits)
      with Some False Inl show ?thesis by (simp add: execute_shell_command_def one_sided_def)
    next
      case (Inr req)
      with Some False show ?thesis
        by (simp add: execute_shell_command_def communicate_one_sided)
    qed
  qed
qed

lemma execute_api_call_one_sided:
  "snd (execute_api_call ex h url method headers body) = Inr r \<Longrightarrow> one_sided r"
  by (auto simp: execute_api_call_def api_except_def one_sided_def Let_def
      split: option.splits if_splits http_outcome.splits sum.splits)

lemma execute_reminder_task_one_sided: "one_sided (snd (execute_reminder_task ex h title m))"
proof -
  have l: "\<And>evs e. linux_command h (platform_system h) title x = (evs, Inr (Inl e)) \<Longrightarrow> e \<noteq> []" for x
    by (auto simp: linux_command_def Let_def split: prod.splits sum.splits if_splits)
  have w: "\<And>evs e. windows_command ex h title x = (evs, Inr (Inl e)) \<Longrightarrow> e \<noteq> []" for x
    by (auto simp: windows_command_def Let_def split: option.splits)
  have n: "\<And>evs e. notification_command ex h title x = (evs, Inr (Inl e)) \<Longrightarrow> e \<noteq> []" for x
    using l w by (auto simp: notification_command_def Let_def split: if_splits)
  show ?thesis
    using n
    by (auto simp: execute_reminder_task_def one_sided_def
        split: option.splits prod.splits sum.splits if_splits)
qed

lemma settle_one_sided:
  "one_sided r \<Longrightarrow> output execution = None \<Longrightarrow>
     (output (settle execution r) \<noteq> None) = (status (settle execution r) = COMPLETED)"
  by (auto simp: one_sided_def settle_def truthy_def split: option.splits)

lemma snd_execute_task:
  "snd (execute_task ex h task) =
     (case snd (execute_task_try ex h task
                  (TaskExecution_new (uuid4 h) (utcnow_start h) (ident task))) of
        Inr e \<Rightarrow> Inr (e\<lparr>end_time := Some (utcnow_end h)\<rparr>)
      | Inl x \<Rightarrow>
          Inr ((TaskExecution_new (uuid4 h) (utcnow_start h) (ident task))
                 \<lparr>status := FAILED, error := Some (str_exn x),
                  end_time := Some (utcnow_end h)\<rparr>))"
  by (simp add: execute_task_def Let_def split: prod.splits sum.splits)

lemma snd_execute_task_try:
  assumes "type_value task \<noteq> ''ai''" and "snd (execute_task_try ex h task x) = Inr e"
  shows "(\<exists>r. one_sided r \<and> e = settle x r) \<or>
         (\<exists>m. e = x\<lparr>status := FAILED, error := Some m\<rparr>)"
proof (cases "type_value task = ''shell_command''")
  case True
  then have "snd (execute_task_try ex h task x) =
      Inr (settle x (snd (execute_shell_command ex h (command task))))"
    by (simp add: execute_task_try_def split: prod.splits)
  with assms(2) have "e = settle x (snd (execute_shell_command ex h (command task)))"
    by simp
  with execute_shell_command_one_sided show ?thesis by blast
next
  case ns: False
  show ?thesis
  proof (cases "type_value task = ''api_call''")
    case True
    let ?r = "snd (execute_api_call ex h (api_url task) (api_method task) (api_headers task)
                     (api_body task))"
    from True have "snd (execute_task_try ex h task x) =
        (case ?r of Inl e \<Rightarrow> Inl e | Inr r \<Rightarrow> Inr (settle x r))"
      by (simp add: execute_task_try_def split: prod.splits sum.splits)
    with assms(2) obtain r where "?r = Inr r" and "e = settle x r"
      by (auto split: sum.splits)
    with execute_api_call_one_sided show ?thesis by blast
  next
    case na: False
    show ?thesis
    proof (cases "type_value task = ''reminder''")
      case True
      let ?t = "or_else (reminder_title task) (name task)"
      from True ns na assms(1) have "snd (execute_task_try ex h task x) =
          Inr (settle x (snd (execute_reminder_task ex h ?t (reminder_message task))))"
        by (simp add: execute_task_try_def split: prod.splits)
      with assms(2) have
        "e = settle x (snd (execute_reminder_task ex h ?t (reminder_message task)))"
        by simp
      with execute_reminder_task_one_sided show ?thesis by blast
    next
      case False
      with ns na assms show ?thesis
        by (auto simp: execute_task_try_def)
    qed
  qed
qed

lemma execute_task_output_iff_completed:
  assumes "type_value task \<noteq> ''ai''" and "snd (execute_task ex h task) = Inr e"
  shows "(output e \<noteq> None) = (status e = COMPLETED)"
proof -
  let ?new = "TaskExecution_new (uuid4 h) (utcnow_start h) (ident task)"
  have o: "output ?new = None" by (simp add: TaskExecution_new_def)
  show ?thesis
  proof (cases "snd (execute_task_try ex h task ?new)")
    case (Inl x)
    with assms(2) o show ?thesis by (auto simp: snd_execute_task)
  next
    case (Inr e')
    with assms(2) have e: "e = e'\<lparr>end_time := Some (utcnow_end h)\<rparr>"
      by (simp add: snd_execute_task)
    from snd_execute_task_try [OF assms(1) Inr]
    have "(output e' \<noteq> None) = (status e' = COMPLETED)"
    proof
      assume "\<exists>r. one_sided r \<and> e' = settle ?new r"
      then obtain r where "one_sided r" and "e' = settle ?new r" by blast
      with settle_one_sided [OF \<open>one_sided r\<close> o] show ?thesis by simp
    next
      assume "\<exists>m. e' = ?new\<lparr>status := FAILED, error := Some m\<rparr>"
      with o show ?thesis by auto
    qed
    with e show ?thesis by simp
  qed
qed

text \<open>
  C2: the claim fails for an \<open>ai\<close> task whose completion carries no content
  (\<open>message.content\<close> is \<open>None\<close>): \<open>_execute_ai_task\<close> returns the pair
  \<open>(None, None)\<close>, and the execution is completed with neither output nor error.
  Present means not \<open>None\<close>. The lemmas above are what holds: for every task an
  error is present exactly when the status is failed, and an output only when it is
  completed; for every task that is not an \<open>ai\<close> task an output is present exactly
  when the status is completed.
\<close>

theorem ai_completed_without_output:
  "snd (execute_task (posix_executor\<lparr>self_ai_client := Some content_free_client\<rparr>) linux_host
          (example_task\<lparr>type_value := ''ai''\<rparr>)) =
     Inr \<lparr>exec_ident = ''exec_000000000001'', task_id = ''task_000000000001'', start_time = 0,
          end_time = Some 1, status = COMPLETED, output = None, error = None\<rparr>"
  by (simp add: execute_task_def execute_task_try_def execute_ai_task_def settle_def truthy_def
      example_task_def linux_host_def posix_executor_def TaskExecution_new_def
      content_free_client_def get_ai_config_def example_config_def)

section \<open>Shell commands\<close>

lemma spawned_communicate: "spawned (fst (communicate ex req oc)) = [req]"
  by (simp add: communicate_def split: process_outcome.splits sum.splits)

lemma use_shell_posix:
  "use_shell False c =
     ((\<exists>k \<in> set shell_commands. prefix k (lower (strip c))) \<or>
      CHR ''|'' \<in> set c \<or> CHR ''>'' \<in> set c \<or> CHR ''<'' \<in> set c)"
  by (simp add: use_shell_def startswith_def list_ex_iff)

lemma echo_is_builtin: "\<exists>k \<in> set shell_commands. prefix k (lower (strip ''  Echo hi''))"
proof -
  have "lower (strip ''  Echo hi'') = ''echo hi''" by code_simp
  then show ?thesis by (simp add: shell_commands_def)
qed

lemma ls_is_not_builtin: "\<not> (\<exists>k \<in> set shell_commands. prefix k (lower (strip ''ls -l'')))"
proof -
  have "lower (strip ''ls -l'') = ''ls -l''" by code_simp
  then show ?thesis by (simp add: shell_commands_def)
qed

text \<open>
  C3: on a host that is not Windows, a command that is not empty is given to the shell,
  unchanged, exactly when it contains \<open>|\<close>, \<open>>\<close> or \<open><\<close>, or when one of the
  twelve keywords is a prefix of it once surrounding whitespace is stripped and letters
  are lowered. Otherwise the only process created is the direct execution of the
  argument vector \<open>shlex.split\<close> gives; when \<open>shlex.split\<close> rejects the command, or
  gives no program, no process is created and the error says so.
\<close>

theorem shell_mode_choice:
  assumes "c \<noteq> []" and "\<not> self_is_windows ex"
  shows "if (\<exists>k \<in> set shell_commands. prefix k (lower (strip c))) \<or>
            CHR ''|'' \<in> set c \<or> CHR ''>'' \<in> set c \<or> CHR ''<'' \<in> set c
         then spawned (fst (execute_shell_command ex h (Some c))) = [Subprocess_shell c]
         else (case shlex_split h c of
                 Inr (program # args) \<Rightarrow>
                   spawned (fst (execute_shell_command ex h (Some c))) =
                     [Subprocess_exec program args]
               | Inr [] \<Rightarrow>
                   execute_shell_command ex h (Some c) =
                     ([], (None, Some (''Failed to execute command: '' @ missing_program)))
               | Inl m \<Rightarrow>
                   execute_shell_command ex h (Some c) =
                     ([], (None, Some (''Invalid command syntax: '' @ m))))"
proof (cases "use_shell False c")
  case True
  with assms have "execute_shell_command ex h (Some c) =
      communicate ex (Subprocess_shell c) (subprocess h (Subprocess_shell c))"
    by (simp add: execute_shell_command_def spawn_request_def)
  with True show ?thesis
    by (simp add: use_shell_posix spawned_communicate)
next
  case False
  with assms have "execute_shell_command ex h (Some c) =
      (case shlex_split h c of
         Inl m \<Rightarrow> ([], (None, Some (''Invalid command syntax: '' @ m)))
       | Inr [] \<Rightarrow> ([], (None, Some (''Failed to execute command: '' @ missing_program)))
       | Inr (program # args) \<Rightarrow>
           communicate ex (Subprocess_exec program args)
             (subprocess h (Subprocess_exec program args)))"
    by (simp add: execute_shell_command_def spawn_request_def split: sum.splits list.splits)
  with False show ?thesis
    by (simp add: use_shell_posix spawned_communicate split: sum.splits list.splits)
qed

theorem shell_mode_choice_witness:
  "spawned (fst (execute_shell_command posix_executor linux_host (Some ''  Echo hi''))) =
     [Subprocess_shell ''  Echo hi''] \<and>
   spawned (fst (execute_shell_command posix_executor linux_host (Some ''ls -l''))) =
     [Subprocess_exec ''ls'' [''-l'']]"
  using shell_mode_choice [of "''  Echo hi''" posix_executor linux_host]
    shell_mode_choice [of "''ls -l''" posix_executor linux_host]
    echo_is_builtin ls_is_not_builtin
  by (simp add: posix_executor_def linux_host_def)

text \<open>
  C4, as stated, fails: on a host that is not Windows the command \<open>exit 1\<close> has no
  operator and starts with no keyword, so it is executed directly as \<open>exit\<close> with the
  argument \<open>1\<close>; where no such program exists the spawn raises, and the error is
  \<open>Failed to execute command: ...\<close>, without the text \<open>exit code 1\<close>.
\<close>

theorem exit_1_counterexample:
  "snd (execute_task posix_executor linux_host example_task) =
     Inr \<lparr>exec_ident = ''exec_000000000001'', task_id = ''task_000000000001'', start_time = 0,
          end_time = Some 1, status = FAILED, output = None,
          error = Some (''Failed to execute command: '' @ no_such_file)\<rparr> \<and>
   \<not> contains (''Failed to execute command: '' @ no_such_file) ''exit code 1'' \<and>
   fst (execute_task posix_executor linux_host example_task) =
     [Ev_subprocess (Subprocess_exec ''exit'' [''1''])]"
proof -
  have "\<not> contains (''Failed to execute command: '' @ no_such_file) ''exit code 1''"
    by code_simp
  moreover have "\<not> use_shell False ''exit 1''"
    by code_simp
  ultimately show ?thesis
    by (simp add: execute_task_def execute_task_try_def execute_shell_command_def
        spawn_request_def communicate_def settle_def truthy_def TaskExecution_new_def
        posix_executor_def linux_host_def example_task_def)
qed

text \<open>
  A process that exits with a code other than 0 and whose standard error is not UTF-8
  gives the error of the outer handler, which carries neither the code nor the bytes.
\<close>

lemma undecodable_stderr:
  "snd (execute_task posix_executor binary_stderr_host (example_task\<lparr>command := Some ''ls -l''\<rparr>)) =
     Inr \<lparr>exec_ident = ''exec_000000000001'', task_id = ''task_000000000001'', start_time = 0,
          end_time = Some 1, status = FAILED, output = None,
          error = Some ''Failed to execute command: invalid start byte''\<rparr>"
proof -
  have "\<not> use_shell False ''ls -l''"
    by code_simp
  then show ?thesis
    by (simp add: execute_task_def execute_task_try_def execute_shell_command_def
        spawn_request_def communicate_def settle_def truthy_def TaskExecution_new_def
        posix_executor_def linux_host_def example_task_def binary_stderr_host_def)
qed

text \<open>
  C4, amended: when the process created for the command of a \<open>shell_command\<close> task
  exits within the timeout with a code other than 0, and its standard error decodes,
  the execution is failed and its error is \<open>Command failed with exit code \<close>, the
  code, \<open>: \<close> and the text of the standard error (\<open>Unknown error\<close> when that is
  empty); the error contains \<open>exit code \<close> followed by the code, and the text of the
  standard error. The witness is the command \<open>exit 1\<close> on Windows, where every command
  is run by \<open>cmd.exe\<close>.
\<close>

theorem nonzero_exit_fails:
  assumes "type_value task = ''shell_command''" and "command task = Some c" and "c \<noteq> []"
    and "spawn_request ex h c = Inr req"
    and "subprocess h req = Exited returncode out (Decodable err_text)"
    and "returncode \<noteq> 0"
  shows "\<exists>execution msg.
           execute_task ex h task = ([Ev_subprocess req], Inr execution) \<and>
           status execution = FAILED \<and> output execution = None \<and>
           error execution = Some msg \<and>
           msg = ''Command failed with exit code '' @ str_int returncode @ '': '' @
                 (if err_text = [] then ''Unknown error'' else err_text) \<and>
           contains msg (''exit code '' @ str_int returncode) \<and> contains msg err_text"
proof -
  define tail where "tail = (if err_text = [] then ''Unknown error'' else err_text)"
  define msg where "msg = ''Command failed with exit code '' @ str_int returncode @ '': '' @ tail"
  have "msg = ''Command failed with '' @ (''exit code '' @ str_int returncode) @ ('': '' @ tail)"
    by (simp add: msg_def)
  then have c1: "contains msg (''exit code '' @ str_int returncode)"
    unfolding contains_def by (metis sublist_appendI)
  have "sublist tail msg"
    unfolding msg_def by (metis append.assoc sublist_append_leftI)
  moreover have "sublist err_text tail"
    by (simp add: tail_def)
  ultimately have c2: "contains msg err_text"
    unfolding contains_def by (rule sublist_order.order.trans[rotated])
  have "execute_shell_command ex h (Some c) = ([Ev_subprocess req], (None, Some msg))"
    using assms by (simp add: execute_shell_command_def communicate_def msg_def tail_def)
  with assms(1,2) have "execute_task ex h task =
      ([Ev_subprocess req],
       Inr ((TaskExecution_new (uuid4 h) (utcnow_start h) (ident task))
              \<lparr>status := FAILED, error := Some msg, end_time := Some (utcnow_end h)\<rparr>))"
    by (simp add: execute_task_def execute_task_try_def settle_def truthy_def msg_def)
  with c1 c2 show ?thesis
    by (simp add: TaskExecution_new_def msg_def tail_def)
qed

theorem nonzero_exit_fails_witness:
  "\<exists>execution.
     execute_task windows_executor windows_host example_task =
       ([Ev_subprocess (Subprocess_shell ''cmd.exe /c exit 1'')], Inr execution) \<and>
     status execution = FAILED \<and>
     error execution = Some ''Command failed with exit code 1: Unknown error'' \<and>
     contains ''Command failed with exit code 1: Unknown error'' ''exit code 1''"
proof -
  have s: "str_int 1 = ''1''"
    by (simp add: str_int_def str_nat.simps digit_char_def)
  have r: "spawn_request windows_executor windows_host ''exit 1'' =
             Inr (Subprocess_shell ''cmd.exe /c exit 1'')"
    by (simp add: spawn_request_def use_shell_def windows_executor_def)
  show ?thesis
    using nonzero_exit_fails [of example_task "''exit 1''" windows_executor windows_host
        "Subprocess_shell ''cmd.exe /c exit 1''" 1 "Decodable []" "[]"] r
    by (auto simp: example_task_def windows_host_def linux_host_def s)
qed

section \<open>API calls\<close>

text \<open>
  The method of the request: \<open>upper\<close> on a method in small letters, and on the three
  letters whose capital is not one code point below 256.
\<close>

lemma upper_examples:
  "upper ''post'' = code_points ''POST''"
  "upper [CHR 0xB5] = [924]"
  "upper [CHR 0xDF] = code_points ''SS''"
  "upper [CHR 0xFF] = [376]"
  by code_simp+

text \<open>
  C5, as stated, fails: a request that is answered with status 200 and a body that
  cannot be decoded completes without a network error or a timeout, and yet the
  execution is failed. \<open>response.text()\<close> raises, neither \<open>except\<close> clause of
  \<open>_execute_api_call\<close> catches it, and the \<open>except\<close> clause of \<open>execute_task\<close>
  records the failure.
\<close>

theorem api_call_undecodable_body_counterexample:
  "snd (execute_task posix_executor binary_body_host (example_task\<lparr>type_value := ''api_call''\<rparr>)) =
     Inr \<lparr>exec_ident = ''exec_000000000001'', task_id = ''task_000000000001'', start_time = 0,
          end_time = Some 1, status = FAILED, output = None,
          error = Some decode_error_message\<rparr>"
  by (simp add: execute_task_def execute_task_try_def execute_api_call_def api_except_def
      binary_body_host_def linux_host_def example_task_def TaskExecution_new_def)

text \<open>
  C5, amended: an \<open>api_call\<close> task with a URL that is not empty, whose request is
  answered with a status and a body that is read and decoded as text, is completed with
  the body as output when the status is below 400, and failed when it is 400 or more,
  with an error that contains the status and the body. The witness is the answer 404
  with the body \<open>not found\<close>.
\<close>

theorem api_call_by_status:
  assumes "type_value task = ''api_call''" and "api_url task = Some u" and "u \<noteq> []"
    and "session_request h (api_request ex u (api_method task) (api_headers task) (api_body task)) =
           Response st (Inr body)"
  shows "\<exists>execution. snd (execute_task ex h task) = Inr execution \<and>
           (if st < 400 then
              status execution = COMPLETED \<and> output execution = Some body \<and>
              error execution = None
            else
              status execution = FAILED \<and> output execution = None \<and>
              error execution =
                Some (''API call failed with status '' @ str_int st @ '': '' @ body) \<and>
              contains (''API call failed with status '' @ str_int st @ '': '' @ body) (str_int st) \<and>
              contains (''API call failed with status '' @ str_int st @ '': '' @ body) body)"
proof -
  have c1: "contains (''API call failed with status '' @ str_int st @ '': '' @ body) (str_int st)"
    unfolding contains_def by (rule sublist_appendI)
  have "sublist body ((''API call failed with status '' @ str_int st @ '': '') @ body)"
    by (rule sublist_append_leftI)
  then have c2: "contains (''API call failed with status '' @ str_int st @ '': '' @ body) body"
    unfolding contains_def by simp
  show ?thesis
  proof (cases "st < 400")
    case True
    with assms show ?thesis
      by (simp add: execute_task_def execute_task_try_def execute_api_call_def settle_def
          truthy_def TaskExecution_new_def)
  next
    case False
    with assms c1 c2 show ?thesis
      by (simp add: execute_task_def execute_task_try_def execute_api_call_def settle_def
          truthy_def TaskExecution_new_def)
  qed
qed

theorem api_call_by_status_witness:
  "\<exists>execution.
     snd (execute_task posix_executor linux_host (example_task\<lparr>type_value := ''api_call''\<rparr>)) =
       Inr execution \<and>
     status execution = FAILED \<and> output execution = None \<and>
     error execution = Some ''API call failed with status 404: not found'' \<and>
     contains ''API call failed with status 404: not found'' ''404'' \<and>
     contains ''API call failed with status 404: not found'' ''not found''"
proof -
  have s: "str_int 404 = ''404''"
    by (simp add: str_int_def str_nat.simps digit_char_def)
  show ?thesis
    using api_call_by_status [of "example_task\<lparr>type_value := ''api_call''\<rparr>"
        "''http://x/report''" linux_host posix_executor 404 "''not found''"]
    by (simp add: example_task_def linux_host_def s)
qed

section \<open>AI tasks\<close>

text \<open>
  C6: an \<open>ai\<close> task with a prompt that is not empty, run by an executor that has no AI
  client, gives a failed execution whose error is exactly
  \<open>No AI client configured for AI tasks\<close>, and the list of external calls is empty:
  no request is sent.
\<close>

theorem ai_without_client_fails:
  assumes "type_value task = ''ai''" and "prompt task = Some p" and "p \<noteq> []"
    and "self_ai_client ex = None"
  shows "execute_task ex h task =
           ([], Inr ((TaskExecution_new (uuid4 h) (utcnow_start h) (ident task))
                       \<lparr>status := FAILED,
                        error := Some ''No AI client configured for AI tasks'',
                        end_time := Some (utcnow_end h)\<rparr>))"
  using assms
  by (simp add: execute_task_def execute_task_try_def execute_ai_task_def settle_def truthy_def)

theorem ai_without_client_fails_witness:
  "execute_task posix_executor linux_host (example_task\<lparr>type_value := ''ai''\<rparr>) =
     ([], Inr \<lparr>exec_ident = ''exec_000000000001'', task_id = ''task_000000000001'', start_time = 0,
          end_time = Some 1, status = FAILED, output = None,
          error = Some ''No AI client configured for AI tasks''\<rparr>)"
  using ai_without_client_fails [of "example_task\<lparr>type_value := ''ai''\<rparr>" "''Say hello''" posix_executor linux_host]
  by (simp add: example_task_def linux_host_def posix_executor_def TaskExecution_new_def)

section \<open>Reminders\<close>

text \<open>
  C7: for a \<open>reminder\<close> task with a message that is not empty, on a host that is
  neither Windows nor macOS, where each \<open>which\<close> exits: the tools are looked for in
  the order notify-send, zenity, xmessage, the search stops at the first one found, and
  the command is the one of that tool. When none is found, the three have been looked
  for, nothing else is run, and the execution is failed with an error that contains the
  name of the platform.
\<close>

theorem reminder_fallback_chain:
  assumes "type_value task = ''reminder''" and "reminder_message task = Some m" and "m \<noteq> []"
    and "platform_system h \<noteq> ''Windows''" and "platform_system h \<noteq> ''Darwin''"
    and "subprocess h (Subprocess_shell ''which notify-send'') = Exited rc1 out1 err1"
    and "subprocess h (Subprocess_shell ''which zenity'') = Exited rc2 out2 err2"
    and "subprocess h (Subprocess_shell ''which xmessage'') = Exited rc3 out3 err3"
  shows "\<exists>evs r. notification_command ex h title m = (evs, Inr r) \<and>
           (if rc1 = 0 then
              evs = which_events [''notify-send''] \<and>
              (\<exists>rest. r = Inr (''notify-send '' @ rest))
            else if rc2 = 0 then
              evs = which_events [''notify-send'', ''zenity''] \<and>
              (\<exists>rest. r = Inr (''zenity '' @ rest))
            else if rc3 = 0 then
              evs = which_events [''notify-send'', ''zenity'', ''xmessage''] \<and>
              (\<exists>rest. r = Inr (''xmessage '' @ rest))
            else
              evs = which_events [''notify-send'', ''zenity'', ''xmessage''] \<and>
              r = Inl (''No notification command available on this system ('' @
                       platform_system h @ '')'') \<and>
              execute_task ex h task =
                (evs, Inr ((TaskExecution_new (uuid4 h) (utcnow_start h) (ident task))
                             \<lparr>status := FAILED,
                              error := Some (''No notification command available on this system ('' @
                                             platform_system h @ '')''),
                              end_time := Some (utcnow_end h)\<rparr>)) \<and>
              contains (''No notification command available on this system ('' @
                        platform_system h @ '')'') (platform_system h))"
proof -
  have c: "contains (''No notification command available on this system ('' @
                     platform_system h @ '')'') (platform_system h)"
    unfolding contains_def by (rule sublist_appendI)
  have n: "\<And>t. notification_command ex h t m = linux_command h (platform_system h) t m"
    using assms(4,5) by (simp add: notification_command_def)
  show ?thesis
  proof (cases "rc1 = 0")
    case True
    with assms(6) show ?thesis
      by (simp add: n linux_command_def which_check_def which_events_def)
  next
    case r1: False
    show ?thesis
    proof (cases "rc2 = 0")
      case True
      with r1 assms(6,7) show ?thesis
        by (simp add: n linux_command_def which_check_def which_events_def)
    next
      case r2: False
      show ?thesis
      proof (cases "rc3 = 0")
        case True
        with r1 r2 assms(6,7,8) show ?thesis
          by (simp add: n linux_command_def which_check_def which_events_def)
      next
        case r3: False
        have l: "\<And>t. linux_command h (platform_system h) t m =
              (which_events [''notify-send'', ''zenity'', ''xmessage''],
               Inr (Inl (''No notification command available on this system ('' @
                         platform_system h @ '')'')))"
          using r1 r2 r3 assms(6,7,8)
          by (simp add: linux_command_def which_check_def which_events_def)
        have "\<And>t. execute_reminder_task ex h t (Some m) =
              (which_events [''notify-send'', ''zenity'', ''xmessage''],
               (None, Some (''No notification command available on this system ('' @
                            platform_system h @ '')'')))"
          using assms(3) by (simp add: execute_reminder_task_def n l)
        with assms(1,2) have "execute_task ex h task =
              (which_events [''notify-send'', ''zenity'', ''xmessage''],
               Inr ((TaskExecution_new (uuid4 h) (utcnow_start h) (ident task))
                      \<lparr>status := FAILED,
                       error := Some (''No notification command available on this system ('' @
                                      platform_system h @ '')''),
                       end_time := Some (utcnow_end h)\<rparr>))"
          by (simp add: execute_task_def execute_task_try_def settle_def truthy_def)
        with r1 r2 r3 c show ?thesis
          by (simp add: n l)
      qed
    qed
  qed
qed

theorem reminder_fallback_chain_witness:
  "execute_task posix_executor linux_host (example_task\<lparr>type_value := ''reminder''\<rparr>) =
     ([Ev_subprocess (Subprocess_shell ''which notify-send''),
       Ev_subprocess (Subprocess_shell ''which zenity''),
       Ev_subprocess (Subprocess_shell ''which xmessage'')],
      Inr \<lparr>exec_ident = ''exec_000000000001'', task_id = ''task_000000000001'', start_time = 0,
           end_time = Some 1, status = FAILED, output = None,
           error = Some ''No notification command available on this system (Linux)''\<rparr>) \<and>
   contains ''No notification command available on this system (Linux)'' ''Linux''"
  using reminder_fallback_chain [of "example_task\<lparr>type_value := ''reminder''\<rparr>" "''Stand up''"
      linux_host 1 "Decodable []" "Decodable []" 1 "Decodable []" "Decodable []"
      1 "Decodable []" "Decodable []" posix_executor "''Example''"]
  by (auto simp: example_task_def linux_host_def which_events_def TaskExecution_new_def)

section \<open>The stdio wrappers\<close>

lemma strip_Nil: "strip [] = []"
  by (simp add: strip_def)


text \<open>
  What \<open>write\<close> does with every string: it forwards to the real standard output,
  unchanged, the data that begin with \<open>{\<close> or \<open>[\<close> once surrounding whitespace is
  stripped; for any other data that are not blank it writes one line to the standard
  error, a notice followed by their first 100 characters; blank data are dropped.
\<close>

lemma stdout_wrapper_routing:
  "original_stdout (JSONRPCStdout_write io data) =
     original_stdout io @
     (if startswith (strip data) ''{'' \<or> startswith (strip data) ''['' then [data] else []) \<and>
   sys_stderr (JSONRPCStdout_write io data) =
     sys_stderr io @
     (if strip data = [] \<or> startswith (strip data) ''{'' \<or> startswith (strip data) ''[''
      then []
      else [''Attempted to write non-JSON to stdout: '' @ take 100 data @ [CHR 0x0A]])"
proof (cases "strip data = []")
  case True
  then show ?thesis
    by (simp add: JSONRPCStdout_write_def startswith_def)
next
  case False
  then have d: "data \<noteq> []"
    using strip_Nil by auto
  show ?thesis
  proof (cases "startswith (strip data) ''{'' \<or> startswith (strip data) ''[''")
    case True
    with False d show ?thesis
      by (simp add: JSONRPCStdout_write_def)
  next
    case other: False
    with False d show ?thesis
      by (simp add: JSONRPCStdout_write_def)
  qed
qed

text \<open>
  C8: the claim fails on the code. A log line that begins with a bracket passes the
  test of the first character and is written to the real standard output, although it
  is not a JSON text: the wrapper does not do what its own comments say (only JSON
  goes to stdout, non-JSON data go to stderr).
\<close>

theorem stdout_wrapper_forwards_log_line:
  \<open>original_stdout
     (JSONRPCStdout_write \<lparr>original_stdout = [], sys_stderr = []\<rparr> ''[INFO] started'') =
     [''[INFO] started''] \<and>
   sys_stderr
     (JSONRPCStdout_write \<lparr>original_stdout = [], sys_stderr = []\<rparr> ''[INFO] started'') = [] \<and>
   \<not> well_formed_json ''[INFO] started'' \<and>
   well_formed_json ''{"jsonrpc":"2.0","id":1,"result":[]}''\<close>
proof -
  have "\<not> well_formed_json ''[INFO] started''"
    by code_simp
  moreover have \<open>well_formed_json ''{"jsonrpc":"2.0","id":1,"result":[]}''\<close>
    by code_simp
  moreover have "strip ''[INFO] started'' = ''[INFO] started''"
    by code_simp
  ultimately show ?thesis
    by (simp add: JSONRPCStdout_write_def startswith_def)
qed






lemma match_id_at_Nil: "match_id_at [] = None"
  by (simp add: match_id_at_def startswith_def)


lemma re_search_id_leftmost:
  "re_search_id (pre @ suf) = Some ds \<Longrightarrow> match_id_at suf = Some ds' \<Longrightarrow>
     (\<forall>k < length pre. match_id_at (drop k (pre @ suf)) = None) \<Longrightarrow> ds = ds'"
proof (induction pre)
  case Nil
  then show ?case by (cases suf) (auto simp: match_id_at_Nil)
next
  case (Cons c pre)
  from Cons.prems(3) have "match_id_at (drop 0 ((c # pre) @ suf)) = None" by blast
  then have n: "match_id_at (c # pre @ suf) = None" by simp
  with Cons.prems(1) have r: "re_search_id (pre @ suf) = Some ds" by simp
  have "\<forall>k < length pre. match_id_at (drop k (pre @ suf)) = None"
  proof (intro allI impI)
    fix k assume "k < length pre"
    then have "Suc k < length (c # pre)" by simp
    with Cons.prems(3) have "match_id_at (drop (Suc k) ((c # pre) @ suf)) = None" by blast
    then show "match_id_at (drop k (pre @ suf)) = None" by simp
  qed
  with Cons.IH r Cons.prems(2) show ?case by blast
qed















end
